theory Spec2Isabelle
  imports Main
begin

section \<open>The domain types of internal/model\<close>

text \<open>
  \<open>Status\<close> and \<open>Category\<close> are Go string types; the repository converts them to and from
  plain strings without looking at them, so they are strings here. \<open>int64\<close> identifiers and
  the \<open>int\<close> progress value are never computed with in the repository (no arithmetic, only
  moves and comparisons with zero), so they are integers.
\<close>

type_synonym Status = string
type_synonym Category = string

definition StatusPending :: Status where "StatusPending = ''pending''"
definition StatusInProgress :: Status where "StatusInProgress = ''in_progress''"
definition StatusDone :: Status where "StatusDone = ''done''"

definition CategoryPersonal :: Category where "CategoryPersonal = ''personal''"
definition CategoryWork :: Category where "CategoryWork = ''work''"
definition CategoryOther :: Category where "CategoryOther = ''other''"

text \<open>
  An instant of \<open>time.Time\<close>: seconds and nanoseconds since January 1 of year 1, 00:00:00 UTC.
  The zero value of the Go type is that instant itself.
\<close>

datatype Time = Time (seconds: int) (nanos: int)

definition zero_Time :: Time where "zero_Time = Time 0 0"

record Todo =
  ID :: int
  Title :: string
  Description :: string
  Status :: Status
  Category :: Category
  ProgressPercent :: int
  CreatedAt :: Time
  UpdatedAt :: Time

text \<open>The zero value \<open>model.Todo{}\<close>, returned beside every error.\<close>

definition zero_Todo :: Todo where
  "zero_Todo = \<lparr>ID = 0, Title = [], Description = [], Status = [], Category = [],
     ProgressPercent = 0, CreatedAt = zero_Time, UpdatedAt = zero_Time\<rparr>"

text \<open>
  \<open>CreateTodoRequest\<close> carries status and category as plain strings and only the progress
  behind a pointer; \<open>UpdateTodoRequest\<close> carries every field behind a pointer (\<open>None\<close> is nil).
\<close>

record CreateTodoRequest =
  cr_Title :: string
  cr_Description :: string
  cr_Status :: Status
  cr_Category :: Category
  cr_ProgressPercent :: "int option"

record UpdateTodoRequest =
  ur_Title :: "string option"
  ur_Description :: "string option"
  ur_Status :: "Status option"
  ur_Category :: "Category option"
  ur_ProgressPercent :: "int option"

section \<open>Errors\<close>

text \<open>
  \<open>ErrNotFound\<close> is the repository's sentinel, \<open>ErrNoRows\<close> the one of database/sql,
  \<open>ErrSQL\<close> any other failure the store or the driver reports (with its message), and
  \<open>Wrap c e\<close> is \<open>fmt.Errorf("c: %w", e)\<close>.
\<close>

datatype error = ErrNotFound | ErrNoRows | ErrSQL string | Wrap string error

section \<open>Strings\<close>

text \<open>\<open>strings.Join(elems, sep)\<close>.\<close>

fun strings_Join :: "string list \<Rightarrow> string \<Rightarrow> string" where
  "strings_Join [] sep = []"
| "strings_Join [x] sep = x"
| "strings_Join (x # y # ys) sep = x @ sep @ strings_Join (y # ys) sep"

section \<open>The statements the repository builds\<close>

text \<open>The values handed to the driver as positional arguments (Go's \<open>any\<close>), and read back.\<close>

datatype sqlval = SText string | SInt int | SNull

text \<open>
  Line breaks and tabs of the Go raw string literals are kept: \<open>nl_tabs n\<close> is a line feed
  followed by \<open>n\<close> tabs.
\<close>

definition nl_tabs :: "nat \<Rightarrow> string" where
  "nl_tabs n = CHR 0x0A # replicate n (CHR 0x09)"

definition sql_insert :: string where
  "sql_insert = ''INSERT INTO todos (title, description, status, category, progress_percent) VALUES (?, ?, ?, ?, ?)''"

definition sql_select_columns :: "nat \<Rightarrow> string" where
  "sql_select_columns n =
     ''SELECT id, title, description, status, category, progress_percent,'' @ nl_tabs n @
     ''strftime('%Y-%m-%dT%H:%M:%SZ', created_at),'' @ nl_tabs n @
     ''strftime('%Y-%m-%dT%H:%M:%SZ', updated_at)'' @ nl_tabs (n - 1) @
     ''FROM todos''"

definition sql_get :: string where
  "sql_get = sql_select_columns 3 @ '' WHERE id = ?''"

definition sql_delete :: string where
  "sql_delete = ''DELETE FROM todos WHERE id = ?''"

text \<open>
  The dynamic part of \<open>ListTodos\<close>: one condition and one argument for each filter that is
  not nil, the conditions joined with \<open>AND\<close> behind \<open>WHERE\<close>, then the ordering.
\<close>

definition ListTodos_stmt :: "Status option \<Rightarrow> Category option \<Rightarrow> string \<times> sqlval list" where
  "ListTodos_stmt status category =
    (let query = sql_select_columns 2;
         conditions = [];
         args = [];
         (conditions, args) =
           (case status of None \<Rightarrow> (conditions, args)
            | Some v \<Rightarrow> (conditions @ [''status = ?''], args @ [SText v]));
         (conditions, args) =
           (case category of None \<Rightarrow> (conditions, args)
            | Some v \<Rightarrow> (conditions @ [''category = ?''], args @ [SText v]));
         query = (if length conditions > 0
                  then query @ '' WHERE '' @ strings_Join conditions '' AND ''
                  else query);
         query = query @ '' ORDER BY id ASC''
     in (query, args))"

text \<open>
  The dynamic part of \<open>UpdateTodo\<close>: one assignment and one argument for each field that is
  not nil, in the order title, description, status, category, progress_percent.
\<close>

definition UpdateTodo_clauses :: "UpdateTodoRequest \<Rightarrow> string list \<times> sqlval list" where
  "UpdateTodo_clauses req =
    (let setClauses = [];
         args = [];
         (setClauses, args) =
           (case ur_Title req of None \<Rightarrow> (setClauses, args)
            | Some v \<Rightarrow> (setClauses @ [''title = ?''], args @ [SText v]));
         (setClauses, args) =
           (case ur_Description req of None \<Rightarrow> (setClauses, args)
            | Some v \<Rightarrow> (setClauses @ [''description = ?''], args @ [SText v]));
         (setClauses, args) =
           (case ur_Status req of None \<Rightarrow> (setClauses, args)
            | Some v \<Rightarrow> (setClauses @ [''status = ?''], args @ [SText v]));
         (setClauses, args) =
           (case ur_Category req of None \<Rightarrow> (setClauses, args)
            | Some v \<Rightarrow> (setClauses @ [''category = ?''], args @ [SText v]));
         (setClauses, args) =
           (case ur_ProgressPercent req of None \<Rightarrow> (setClauses, args)
            | Some v \<Rightarrow> (setClauses @ [''progress_percent = ?''], args @ [SInt v]))
     in (setClauses, args))"

text \<open>
  The statement issued when at least one field is present: the refresh of \<open>updated_at\<close> is
  appended to the assignments, the identifier to the arguments.
\<close>

definition UpdateTodo_stmt :: "int \<Rightarrow> string list \<Rightarrow> sqlval list \<Rightarrow> string \<times> sqlval list" where
  "UpdateTodo_stmt i setClauses args =
    (let setClauses = setClauses @ [''updated_at = datetime('now')''];
         args = args @ [SInt i];
         query = ''UPDATE todos SET '' @ strings_Join setClauses '', '' @ '' WHERE id = ?''
     in (query, args))"

definition sql_table_info :: string where
  "sql_table_info = ''PRAGMA table_info(todos)''"

definition sql_schema :: string where
  "sql_schema = nl_tabs 1 @
     ''CREATE TABLE IF NOT EXISTS todos ('' @ nl_tabs 2 @
     ''id               INTEGER PRIMARY KEY AUTOINCREMENT,'' @ nl_tabs 2 @
     ''title            TEXT    NOT NULL,'' @ nl_tabs 2 @
     ''description      TEXT    NOT NULL DEFAULT '' @ [CHR 0x27, CHR 0x27] @ '','' @ nl_tabs 2 @
     ''status           TEXT    NOT NULL DEFAULT 'pending' CHECK(status IN ('pending', 'in_progress', 'done')),'' @ nl_tabs 2 @
     ''progress_percent INTEGER NOT NULL DEFAULT 0 CHECK(progress_percent >= 0 AND progress_percent <= 100),'' @ nl_tabs 2 @
     ''created_at       DATETIME NOT NULL DEFAULT (datetime('now')),'' @ nl_tabs 2 @
     ''updated_at       DATETIME NOT NULL DEFAULT (datetime('now'))'' @ nl_tabs 1 @
     '');'' @ nl_tabs 1 @
     ''CREATE INDEX IF NOT EXISTS idx_todos_status ON todos(status);'' @ nl_tabs 1"

definition sql_migration :: string where
  "sql_migration = nl_tabs 1 @
     ''ALTER TABLE todos ADD COLUMN category TEXT NOT NULL DEFAULT 'personal' CHECK(category IN ('personal', 'work', 'other'));'' @
     nl_tabs 1"

definition sql_category_index :: string where
  "sql_category_index = ''CREATE INDEX IF NOT EXISTS idx_todos_category ON todos(category)''"

section \<open>The store\<close>

text \<open>
  The embedded store is not part of the repository's code. It is modelled as far as the
  repository drives it: one table, its column catalogue and indexes, the AUTOINCREMENT
  sequence, and the statements the repository sends, received as text with positional
  arguments, parsed, bound by position and executed.

  A row keeps its timestamps as the value the select expression
  \<open>strftime('%Y-%m-%dT%H:%M:%SZ', column)\<close> has for it: a text, or NULL (\<open>None\<close>) where
  the store cannot read the column as a time. \<open>clock\<close> is that text for \<open>datetime('now')\<close>;
  it is constant during one statement and moves only between calls of the repository.
  \<open>trace\<close> lists every statement handed to the driver, in order, with its arguments.
\<close>

record row =
  r_id :: int
  r_title :: string
  r_description :: string
  r_status :: string
  r_category :: string
  r_progress_percent :: int
  r_created_at :: "string option"
  r_updated_at :: "string option"

record column =
  col_name :: string
  col_type :: string
  col_notnull :: bool
  col_default :: "string option"
  col_pk :: bool
  col_check :: "string option"

record store =
  columns :: "column list option"
  indexes :: "(string \<times> string) list"
  rows :: "row list"
  sequence :: int
  clock :: string
  trace :: "(string \<times> sqlval list) list"

record exec_result =
  LastInsertId :: int
  RowsAffected :: int

subsection \<open>Reading a statement\<close>

datatype assign = Set_param string | Set_now string

datatype stmt =
    Create_table_todos
  | Create_index string string
  | Add_column_category
  | Table_info
  | Insert_todo
  | Select_by_id
  | Select_list "string list"
  | Update_by_id "assign list"
  | Delete_by_id

fun strip_prefix :: "'a list \<Rightarrow> 'a list \<Rightarrow> 'a list option" where
  "strip_prefix [] s = Some s"
| "strip_prefix (p # ps) [] = None"
| "strip_prefix (p # ps) (c # cs) = (if p = c then strip_prefix ps cs else None)"

text \<open>
  \<open>split_on sep s\<close> cuts \<open>s\<close> at every occurrence of the (non-empty) separator, left to
  right. The counter skips the rest of a separator that has just been matched.
\<close>

fun split_aux :: "string \<Rightarrow> nat \<Rightarrow> string \<Rightarrow> string \<Rightarrow> string list" where
  "split_aux sep k acc [] = [rev acc]"
| "split_aux sep (Suc k) acc (c # cs) = split_aux sep k acc cs"
| "split_aux sep 0 acc (c # cs) =
     (case strip_prefix sep (c # cs) of
        Some rest \<Rightarrow> rev acc # split_aux sep (length sep - 1) [] cs
      | None \<Rightarrow> split_aux sep 0 (c # acc) cs)"

definition split_on :: "string \<Rightarrow> string \<Rightarrow> string list" where
  "split_on sep s = split_aux sep 0 [] s"

definition parse_assign :: "string \<Rightarrow> assign option" where
  "parse_assign c =
    (if c = ''updated_at = datetime('now')'' then Some (Set_now ''updated_at'')
     else (case split_on '' = '' c of
             [col, v] \<Rightarrow>
               if v = ''?'' \<and> col \<in> set [''title'', ''description'', ''status'', ''category'', ''progress_percent'']
               then Some (Set_param col) else None
           | _ \<Rightarrow> None))"

definition parse_condition :: "string \<Rightarrow> string option" where
  "parse_condition c =
    (case split_on '' = '' c of
       [col, v] \<Rightarrow> if v = ''?'' \<and> col \<in> set [''status'', ''category''] then Some col else None
     | _ \<Rightarrow> None)"

definition parse_update :: "string \<Rightarrow> stmt option" where
  "parse_update r =
    (case split_on '' WHERE '' r of
       [sets, w] \<Rightarrow>
         if w = ''id = ?''
         then map_option Update_by_id (those (map parse_assign (split_on '', '' sets)))
         else None
     | _ \<Rightarrow> None)"

definition parse_list :: "string \<Rightarrow> stmt option" where
  "parse_list r =
    (case split_on '' ORDER BY '' r of
       [w, ob] \<Rightarrow>
         if ob \<noteq> ''id ASC'' then None
         else if w = [] then Some (Select_list [])
         else (case strip_prefix '' WHERE '' w of
                 None \<Rightarrow> None
               | Some conds \<Rightarrow>
                   map_option Select_list (those (map parse_condition (split_on '' AND '' conds))))
     | _ \<Rightarrow> None)"

definition parse_sql :: "string \<Rightarrow> stmt list option" where
  "parse_sql q =
    (if q = sql_schema then Some [Create_table_todos, Create_index ''idx_todos_status'' ''status'']
     else if q = sql_migration then Some [Add_column_category]
     else if q = sql_category_index then Some [Create_index ''idx_todos_category'' ''category'']
     else if q = sql_table_info then Some [Table_info]
     else if q = sql_insert then Some [Insert_todo]
     else if q = sql_get then Some [Select_by_id]
     else if q = sql_delete then Some [Delete_by_id]
     else (case strip_prefix ''UPDATE todos SET '' q of
             Some r \<Rightarrow> map_option (\<lambda>st. [st]) (parse_update r)
           | None \<Rightarrow>
               (case strip_prefix (sql_select_columns 2) q of
                  Some r \<Rightarrow> map_option (\<lambda>st. [st]) (parse_list r)
                | None \<Rightarrow> None)))"

text \<open>The columns of a statement's placeholders, in the order they stand in its text.\<close>

fun assign_params :: "assign list \<Rightarrow> string list" where
  "assign_params [] = []"
| "assign_params (Set_param c # as) = c # assign_params as"
| "assign_params (Set_now c # as) = assign_params as"

fun stmt_params :: "stmt \<Rightarrow> string list" where
  "stmt_params Insert_todo = [''title'', ''description'', ''status'', ''category'', ''progress_percent'']"
| "stmt_params Select_by_id = [''id'']"
| "stmt_params (Select_list cs) = cs"
| "stmt_params (Update_by_id as) = assign_params as @ [''id'']"
| "stmt_params Delete_by_id = [''id'']"
| "stmt_params _ = []"

subsection \<open>Running a statement\<close>

text \<open>
  The table as the schema script creates it, and the column the migration adds. A default
  and a check are kept as the SQL text of their expression.
\<close>

definition quoted :: "string \<Rightarrow> string" where
  "quoted s = CHR 0x27 # s @ [CHR 0x27]"

definition base_columns :: "column list" where
  "base_columns =
    [\<lparr>col_name = ''id'', col_type = ''INTEGER'', col_notnull = False, col_default = None,
       col_pk = True, col_check = None\<rparr>,
     \<lparr>col_name = ''title'', col_type = ''TEXT'', col_notnull = True, col_default = None,
       col_pk = False, col_check = None\<rparr>,
     \<lparr>col_name = ''description'', col_type = ''TEXT'', col_notnull = True,
       col_default = Some (quoted []), col_pk = False, col_check = None\<rparr>,
     \<lparr>col_name = ''status'', col_type = ''TEXT'', col_notnull = True,
       col_default = Some (quoted ''pending''), col_pk = False,
       col_check = Some ''status IN ('pending', 'in_progress', 'done')''\<rparr>,
     \<lparr>col_name = ''progress_percent'', col_type = ''INTEGER'', col_notnull = True,
       col_default = Some ''0'', col_pk = False,
       col_check = Some ''progress_percent >= 0 AND progress_percent <= 100''\<rparr>,
     \<lparr>col_name = ''created_at'', col_type = ''DATETIME'', col_notnull = True,
       col_default = Some ''datetime('now')'', col_pk = False, col_check = None\<rparr>,
     \<lparr>col_name = ''updated_at'', col_type = ''DATETIME'', col_notnull = True,
       col_default = Some ''datetime('now')'', col_pk = False, col_check = None\<rparr>]"

definition category_column :: column where
  "category_column =
     \<lparr>col_name = ''category'', col_type = ''TEXT'', col_notnull = True,
       col_default = Some (quoted ''personal''), col_pk = False,
       col_check = Some ''category IN ('personal', 'work', 'other')''\<rparr>"

definition column_names :: "store \<Rightarrow> string list" where
  "column_names s = (case columns s of None \<Rightarrow> [] | Some cs \<Rightarrow> map col_name cs)"

text \<open>
  The statements on rows name all eight columns; the store refuses them while the table
  or one of the columns is missing.
\<close>

definition table_ready :: "store \<Rightarrow> bool" where
  "table_ready s =
     list_all (\<lambda>n. n \<in> set (column_names s))
       [''id'', ''title'', ''description'', ''status'', ''category'', ''progress_percent'',
        ''created_at'', ''updated_at'']"

text \<open>The CHECK constraints of the status, category and progress_percent columns.\<close>

definition check_row :: "row \<Rightarrow> bool" where
  "check_row r =
     (r_status r \<in> set [''pending'', ''in_progress'', ''done''] \<and>
      r_category r \<in> set [''personal'', ''work'', ''other''] \<and>
      r_progress_percent r \<ge> 0 \<and> r_progress_percent r \<le> 100)"

text \<open>The eight values of the select list, for one row.\<close>

definition timestamp_value :: "string option \<Rightarrow> sqlval" where
  "timestamp_value t = (case t of None \<Rightarrow> SNull | Some x \<Rightarrow> SText x)"

definition row_values :: "row \<Rightarrow> sqlval list" where
  "row_values r =
     [SInt (r_id r), SText (r_title r), SText (r_description r), SText (r_status r),
      SText (r_category r), SInt (r_progress_percent r),
      timestamp_value (r_created_at r), timestamp_value (r_updated_at r)]"

text \<open>One line of \<open>PRAGMA table_info\<close>: cid, name, type, notnull, dflt_value, pk.\<close>

definition info_values :: "nat \<Rightarrow> column \<Rightarrow> sqlval list" where
  "info_values cid c =
     [SInt (int cid), SText (col_name c), SText (col_type c),
      SInt (if col_notnull c then 1 else 0),
      (case col_default c of None \<Rightarrow> SNull | Some d \<Rightarrow> SText d),
      SInt (if col_pk c then 1 else 0)]"

text \<open>
  Assignments take their values by position: the k-th placeholder gets the k-th argument,
  and \<open>datetime('now')\<close> takes none.
\<close>

fun bind_assigns :: "string \<Rightarrow> assign list \<Rightarrow> sqlval list \<Rightarrow> (string \<times> sqlval) list" where
  "bind_assigns now [] args = []"
| "bind_assigns now (Set_now c # as) args = (c, SText now) # bind_assigns now as args"
| "bind_assigns now (Set_param c # as) (v # args) = (c, v) # bind_assigns now as args"
| "bind_assigns now (Set_param c # as) [] = []"

text \<open>
  Writing one column of a row. The repository sends a text for a text column and an
  integer for an integer column; a value of another kind is refused here (\<open>None\<close>).
\<close>

fun set_column :: "row \<Rightarrow> string \<times> sqlval \<Rightarrow> row option" where
  "set_column r (c, SText v) =
     (if c = ''title'' then Some (r\<lparr>r_title := v\<rparr>)
      else if c = ''description'' then Some (r\<lparr>r_description := v\<rparr>)
      else if c = ''status'' then Some (r\<lparr>r_status := v\<rparr>)
      else if c = ''category'' then Some (r\<lparr>r_category := v\<rparr>)
      else if c = ''updated_at'' then Some (r\<lparr>r_updated_at := Some v\<rparr>)
      else None)"
| "set_column r (c, SInt n) =
     (if c = ''progress_percent'' then Some (r\<lparr>r_progress_percent := n\<rparr>) else None)"
| "set_column r (c, SNull) = None"

fun set_columns :: "row \<Rightarrow> (string \<times> sqlval) list \<Rightarrow> row option" where
  "set_columns r [] = Some r"
| "set_columns r (b # bs) =
     (case set_column r b of None \<Rightarrow> None | Some r' \<Rightarrow> set_columns r' bs)"

text \<open>An updated row must be writable and satisfy the CHECK constraints.\<close>

definition update_row :: "(string \<times> sqlval) list \<Rightarrow> row \<Rightarrow> row option" where
  "update_row binds r =
     (case set_columns r binds of
        None \<Rightarrow> None
      | Some r' \<Rightarrow> if check_row r' then Some r' else None)"

definition condition_holds :: "row \<Rightarrow> string \<times> sqlval \<Rightarrow> bool" where
  "condition_holds r = (\<lambda>(c, v).
     if c = ''status'' then v = SText (r_status r)
     else if c = ''category'' then v = SText (r_category r)
     else False)"

text \<open>
  AUTOINCREMENT: one more than the largest identifier the table has ever held; the store
  is full when that leaves the 64-bit range.
\<close>

definition next_id :: "store \<Rightarrow> int" where
  "next_id s = fold max (map r_id (rows s)) (sequence s) + 1"

definition no_result :: exec_result where
  "no_result = \<lparr>LastInsertId = 0, RowsAffected = 0\<rparr>"

fun run_stmt :: "store \<Rightarrow> stmt \<Rightarrow> sqlval list \<Rightarrow> error + store \<times> exec_result \<times> sqlval list list" where
  "run_stmt s Create_table_todos args =
     (case columns s of
        None \<Rightarrow> Inr (s\<lparr>columns := Some base_columns, rows := []\<rparr>, no_result, [])
      | Some cs \<Rightarrow> Inr (s, no_result, []))"
| "run_stmt s (Create_index name c) args =
     (if columns s = None then Inl (ErrSQL ''no such table: todos'')
      else if name \<in> set (map fst (indexes s)) then Inr (s, no_result, [])
      else if c \<notin> set (column_names s) then Inl (ErrSQL ''no such column'')
      else Inr (s\<lparr>indexes := indexes s @ [(name, c)]\<rparr>, no_result, []))"
| "run_stmt s Add_column_category args =
     (case columns s of
        None \<Rightarrow> Inl (ErrSQL ''no such table: todos'')
      | Some cs \<Rightarrow>
          if ''category'' \<in> set (map col_name cs) then Inl (ErrSQL ''duplicate column name: category'')
          else Inr (s\<lparr>columns := Some (cs @ [category_column]),
                       rows := map (\<lambda>r. r\<lparr>r_category := ''personal''\<rparr>) (rows s)\<rparr>,
                    no_result, []))"
| "run_stmt s Table_info args =
     (case columns s of
        None \<Rightarrow> Inr (s, no_result, [])
      | Some cs \<Rightarrow> Inr (s, no_result, map (\<lambda>(cid, c). info_values cid c) (enumerate 0 cs)))"
| "run_stmt s Insert_todo args =
     (if \<not> table_ready s then Inl (ErrSQL ''no such table or column'')
      else (case args of
              [SText title, SText description, SText status, SText category, SInt progress] \<Rightarrow>
                (let r = \<lparr>r_id = next_id s, r_title = title, r_description = description,
                           r_status = status, r_category = category, r_progress_percent = progress,
                           r_created_at = Some (clock s), r_updated_at = Some (clock s)\<rparr>
                 in if \<not> check_row r then Inl (ErrSQL ''CHECK constraint failed'')
                    else if next_id s > 9223372036854775807 then Inl (ErrSQL ''database or disk is full'')
                    else Inr (s\<lparr>rows := rows s @ [r], sequence := next_id s\<rparr>,
                              \<lparr>LastInsertId = next_id s, RowsAffected = 1\<rparr>, []))
            | _ \<Rightarrow> Inl (ErrSQL ''datatype mismatch'')))"
| "run_stmt s Select_by_id args =
     (if \<not> table_ready s then Inl (ErrSQL ''no such table or column'')
      else Inr (s, no_result, map row_values (filter (\<lambda>r. [SInt (r_id r)] = args) (rows s))))"
| "run_stmt s (Select_list cs) args =
     (if \<not> table_ready s then Inl (ErrSQL ''no such table or column'')
      else Inr (s, no_result,
             map row_values
               (sort_key r_id
                  (filter (\<lambda>r. list_all (condition_holds r) (zip cs args)) (rows s)))))"
| "run_stmt s (Update_by_id as) args =
     (if \<not> table_ready s then Inl (ErrSQL ''no such table or column'')
      else (let binds = bind_assigns (clock s) as (butlast args);
                hit = (\<lambda>r. [SInt (r_id r)] = [last args])
            in if list_all (\<lambda>r. update_row binds r \<noteq> None) (filter hit (rows s))
               then Inr (s\<lparr>rows := map (\<lambda>r. if hit r then the (update_row binds r) else r) (rows s)\<rparr>,
                         \<lparr>LastInsertId = 0, RowsAffected = int (length (filter hit (rows s)))\<rparr>, [])
               else Inl (ErrSQL ''constraint failed or datatype mismatch'')))"
| "run_stmt s Delete_by_id args =
     (if \<not> table_ready s then Inl (ErrSQL ''no such table or column'')
      else (let hit = (\<lambda>r. [SInt (r_id r)] = args)
            in Inr (s\<lparr>rows := filter (\<lambda>r. \<not> hit r) (rows s)\<rparr>,
                    \<lparr>LastInsertId = 0, RowsAffected = int (length (filter hit (rows s)))\<rparr>, [])))"

text \<open>
  A text of several statements runs them in order, each with its share of the arguments,
  and stops at the first failure; what ran before it stays.
\<close>

fun run_script :: "store \<Rightarrow> stmt list \<Rightarrow> sqlval list \<Rightarrow> store \<times> (error + exec_result \<times> sqlval list list)" where
  "run_script s [] args = (s, Inr (no_result, []))"
| "run_script s (st # sts) args =
     (case run_stmt s st (take (length (stmt_params st)) args) of
        Inl e \<Rightarrow> (s, Inl e)
      | Inr (s', res, out) \<Rightarrow>
          if sts = [] then (s', Inr (res, out))
          else run_script s' sts (drop (length (stmt_params st)) args))"

text \<open>
  What the driver does with a text and its arguments: the statement is recorded, read,
  its placeholders are counted against the arguments, and it is run.
\<close>

definition db_run :: "store \<Rightarrow> string \<Rightarrow> sqlval list \<Rightarrow> store \<times> (error + exec_result \<times> sqlval list list)" where
  "db_run s query args =
    (let s = s\<lparr>trace := trace s @ [(query, args)]\<rparr> in
     case parse_sql query of
       None \<Rightarrow> (s, Inl (ErrSQL ''syntax error''))
     | Some sts \<Rightarrow>
         if length (concat (map stmt_params sts)) \<noteq> length args
         then (s, Inl (ErrSQL ''sql: wrong number of arguments''))
         else run_script s sts args)"

text \<open>\<open>db.Exec\<close>, \<open>db.Query\<close> and \<open>db.QueryRow\<close> (whose row reports \<open>ErrNoRows\<close> when scanned).\<close>

definition db_Exec :: "store \<Rightarrow> string \<Rightarrow> sqlval list \<Rightarrow> store \<times> (error + exec_result)" where
  "db_Exec s query args =
    (case db_run s query args of
       (s', Inl e) \<Rightarrow> (s', Inl e)
     | (s', Inr (res, out)) \<Rightarrow> (s', Inr res))"

definition db_Query :: "store \<Rightarrow> string \<Rightarrow> sqlval list \<Rightarrow> store \<times> (error + sqlval list list)" where
  "db_Query s query args =
    (case db_run s query args of
       (s', Inl e) \<Rightarrow> (s', Inl e)
     | (s', Inr (res, out)) \<Rightarrow> (s', Inr out))"

definition db_QueryRow :: "store \<Rightarrow> string \<Rightarrow> sqlval list \<Rightarrow> store \<times> (error + sqlval list)" where
  "db_QueryRow s query args =
    (case db_Query s query args of
       (s', Inl e) \<Rightarrow> (s', Inl e)
     | (s', Inr []) \<Rightarrow> (s', Inl ErrNoRows)
     | (s', Inr (r # rs)) \<Rightarrow> (s', Inr r))"

section \<open>The repository (internal/db)\<close>

text \<open>
  Every operation takes the store and returns it, beside its result. The parser of
  \<open>time.Parse(time.RFC3339, _)\<close> belongs to the Go library and is a parameter \<open>P\<close> of
  everything that reads a row (\<open>None\<close> where the layout does not match); \<open>time.Parse\<close>
  returns the zero instant beside its error. Calls of the logger are left out.
\<close>

definition time_Parse :: "(string \<Rightarrow> Time option) \<Rightarrow> string \<Rightarrow> Time \<times> error option" where
  "time_Parse P v =
     (case P v of Some t \<Rightarrow> (t, None) | None \<Rightarrow> (zero_Time, Some (ErrSQL ''parsing time'')))"

text \<open>\<open>errors.Is\<close>: the error itself or one it wraps.\<close>

fun errors_Is :: "error \<Rightarrow> error \<Rightarrow> bool" where
  "errors_Is (Wrap c e) target = (Wrap c e = target \<or> errors_Is e target)"
| "errors_Is e target = (e = target)"

text \<open>
  \<open>Scan\<close> into (int64, string, string, string, string, int, string, string). A NULL cannot be
  scanned into a string. The store of this model holds an integer or a text in every other
  column, so the conversions \<open>Scan\<close> would try between the two kinds never arise and are
  reported as errors.
\<close>

fun row_Scan :: "sqlval list \<Rightarrow> error + int \<times> string \<times> string \<times> string \<times> string \<times> int \<times> string \<times> string" where
  "row_Scan [SInt i, SText title, SText description, SText statusStr, SText categoryStr,
             SInt progress, SText createdAt, SText updatedAt] =
     Inr (i, title, description, statusStr, categoryStr, progress, createdAt, updatedAt)"
| "row_Scan vs = Inl (ErrSQL ''sql: Scan error'')"

definition scanTodo :: "(string \<Rightarrow> Time option) \<Rightarrow> error + sqlval list \<Rightarrow> error + Todo" where
  "scanTodo P row =
    (case (case row of Inl e \<Rightarrow> Inl e | Inr vs \<Rightarrow> row_Scan vs) of
       Inl err \<Rightarrow>
         if errors_Is err ErrNoRows then Inl ErrNotFound
         else Inl (Wrap ''scan todo'' err)
     | Inr (i, title, description, statusStr, categoryStr, progress, createdAt, updatedAt) \<Rightarrow>
         Inr \<lparr>ID = i, Title = title, Description = description,
              Status = statusStr, Category = categoryStr, ProgressPercent = progress,
              CreatedAt = fst (time_Parse P createdAt),
              UpdatedAt = fst (time_Parse P updatedAt)\<rparr>)"

definition GetTodo :: "(string \<Rightarrow> Time option) \<Rightarrow> store \<Rightarrow> int \<Rightarrow> store \<times> (error + Todo)" where
  "GetTodo P s i =
    (case db_QueryRow s sql_get [SInt i] of (s', row) \<Rightarrow> (s', scanTodo P row))"

definition CreateTodo :: "(string \<Rightarrow> Time option) \<Rightarrow> store \<Rightarrow> CreateTodoRequest \<Rightarrow> store \<times> (error + Todo)" where
  "CreateTodo P s req =
    (let status = StatusPending;
         status = (if cr_Status req \<noteq> [] then cr_Status req else status);
         category = CategoryPersonal;
         category = (if cr_Category req \<noteq> [] then cr_Category req else category);
         progress = 0;
         progress = (case cr_ProgressPercent req of Some p \<Rightarrow> p | None \<Rightarrow> progress)
     in case db_Exec s sql_insert
               [SText (cr_Title req), SText (cr_Description req), SText status, SText category,
                SInt progress] of
          (s', Inl err) \<Rightarrow> (s', Inl (Wrap ''insert todo'' err))
        | (s', Inr result) \<Rightarrow> GetTodo P s' (LastInsertId result))"

text \<open>
  The loop of \<open>ListTodos\<close> over the result rows. The slice starts as nil (\<open>None\<close>);
  \<open>append\<close> makes it a slice.
\<close>

definition append_slice :: "'a list option \<Rightarrow> 'a \<Rightarrow> 'a list option" where
  "append_slice xs x = (case xs of None \<Rightarrow> Some [x] | Some ys \<Rightarrow> Some (ys @ [x]))"

fun ListTodos_loop :: "(string \<Rightarrow> Time option) \<Rightarrow> sqlval list list \<Rightarrow> Todo list option \<Rightarrow> error + Todo list option" where
  "ListTodos_loop P [] todos = Inr todos"
| "ListTodos_loop P (vs # rest) todos =
     (case row_Scan vs of
        Inl err \<Rightarrow> Inl (Wrap ''scan todo'' err)
      | Inr (i, title, description, statusStr, categoryStr, progress, createdAt, updatedAt) \<Rightarrow>
          ListTodos_loop P rest
            (append_slice todos
               \<lparr>ID = i, Title = title, Description = description,
                Status = statusStr, Category = categoryStr, ProgressPercent = progress,
                CreatedAt = fst (time_Parse P createdAt),
                UpdatedAt = fst (time_Parse P updatedAt)\<rparr>))"

definition ListTodos :: "(string \<Rightarrow> Time option) \<Rightarrow> store \<Rightarrow> Status option \<Rightarrow> Category option \<Rightarrow> store \<times> (error + Todo list option)" where
  "ListTodos P s status category =
    (case ListTodos_stmt status category of
       (query, args) \<Rightarrow>
         (case db_Query s query args of
            (s', Inl err) \<Rightarrow> (s', Inl (Wrap ''query todos'' err))
          | (s', Inr out) \<Rightarrow>
              (case ListTodos_loop P out None of
                 Inl err \<Rightarrow> (s', Inl err)
               | Inr todos \<Rightarrow> (s', Inr (if todos = None then Some [] else todos)))))"

definition UpdateTodo :: "(string \<Rightarrow> Time option) \<Rightarrow> store \<Rightarrow> int \<Rightarrow> UpdateTodoRequest \<Rightarrow> store \<times> (error + Todo)" where
  "UpdateTodo P s i req =
    (case UpdateTodo_clauses req of
       (setClauses, args) \<Rightarrow>
         if length setClauses = 0 then GetTodo P s i
         else (case UpdateTodo_stmt i setClauses args of
                 (query, args) \<Rightarrow>
                   (case db_Exec s query args of
                      (s', Inl err) \<Rightarrow> (s', Inl (Wrap ''update todo'' err))
                    | (s', Inr result) \<Rightarrow>
                        if RowsAffected result = 0 then (s', Inl ErrNotFound)
                        else GetTodo P s' i)))"


text \<open>
  \<open>Scan\<close> of one line of the column catalogue into (int, string, string, int, NullString,
  int); the loop of \<open>addCategoryColumn\<close> returns at the first column named category.
\<close>

fun info_Scan :: "sqlval list \<Rightarrow> error + string" where
  "info_Scan [SInt cid, SText name, SText ctype, SInt notnull, SText dfltValue, SInt pk] = Inr name"
| "info_Scan [SInt cid, SText name, SText ctype, SInt notnull, SNull, SInt pk] = Inr name"
| "info_Scan vs = Inl (ErrSQL ''sql: Scan error'')"

fun has_category :: "sqlval list list \<Rightarrow> error + bool" where
  "has_category [] = Inr False"
| "has_category (vs # rest) =
     (case info_Scan vs of
        Inl err \<Rightarrow> Inl (Wrap ''scan table info'' err)
      | Inr name \<Rightarrow> if name = ''category'' then Inr True else has_category rest)"

definition addCategoryColumn :: "store \<Rightarrow> store \<times> error option" where
  "addCategoryColumn s =
    (case db_Query s sql_table_info [] of
       (s1, Inl err) \<Rightarrow> (s1, Some (Wrap ''query table info'' err))
     | (s1, Inr out) \<Rightarrow>
         (case has_category out of
            Inl err \<Rightarrow> (s1, Some err)
          | Inr True \<Rightarrow> (s1, None)
          | Inr False \<Rightarrow>
              (case db_Exec s1 sql_migration [] of
                 (s2, Inl err) \<Rightarrow> (s2, Some (Wrap ''execute category migration'' err))
               | (s2, Inr res) \<Rightarrow>
                   (case db_Exec s2 sql_category_index [] of
                      (s3, Inl err) \<Rightarrow> (s3, Some (Wrap ''create category index'' err))
                    | (s3, Inr res') \<Rightarrow> (s3, None)))))"

definition Migrate :: "store \<Rightarrow> store \<times> error option" where
  "Migrate s =
    (case db_Exec s sql_schema [] of
       (s1, Inl err) \<Rightarrow> (s1, Some (Wrap ''execute schema'' err))
     | (s1, Inr res) \<Rightarrow>
         (case addCategoryColumn s1 of
            (s2, Some err) \<Rightarrow> (s2, Some (Wrap ''add category column'' err))
          | (s2, None) \<Rightarrow> (s2, None)))"

section \<open>Notions used to state the properties\<close>

text \<open>
  The fields an update request carries, in the order the repository looks at them, each
  with the column it is meant for.
\<close>

definition present_fields :: "UpdateTodoRequest \<Rightarrow> (string \<times> sqlval) list" where
  "present_fields req =
     (case ur_Title req of None \<Rightarrow> [] | Some v \<Rightarrow> [(''title'', SText v)]) @
     (case ur_Description req of None \<Rightarrow> [] | Some v \<Rightarrow> [(''description'', SText v)]) @
     (case ur_Status req of None \<Rightarrow> [] | Some v \<Rightarrow> [(''status'', SText v)]) @
     (case ur_Category req of None \<Rightarrow> [] | Some v \<Rightarrow> [(''category'', SText v)]) @
     (case ur_ProgressPercent req of None \<Rightarrow> [] | Some v \<Rightarrow> [(''progress_percent'', SInt v)])"

text \<open>The value a request holds for a column of an update statement's placeholder.\<close>

definition update_value :: "UpdateTodoRequest \<Rightarrow> int \<Rightarrow> string \<Rightarrow> sqlval option" where
  "update_value req i c =
     (if c = ''title'' then map_option SText (ur_Title req)
      else if c = ''description'' then map_option SText (ur_Description req)
      else if c = ''status'' then map_option SText (ur_Status req)
      else if c = ''category'' then map_option SText (ur_Category req)
      else if c = ''progress_percent'' then map_option SInt (ur_ProgressPercent req)
      else if c = ''id'' then Some (SInt i)
      else None)"

text \<open>The value a filter holds for a column of a list statement's placeholder.\<close>

definition filter_value :: "Status option \<Rightarrow> Category option \<Rightarrow> string \<Rightarrow> sqlval option" where
  "filter_value status category c =
     (if c = ''status'' then map_option SText status
      else if c = ''category'' then map_option SText category
      else None)"

text \<open>A request with the same fields present and every value replaced by a fixed one.\<close>

definition presence_only :: "UpdateTodoRequest \<Rightarrow> UpdateTodoRequest" where
  "presence_only req =
     \<lparr>ur_Title = map_option (\<lambda>v. []) (ur_Title req),
      ur_Description = map_option (\<lambda>v. []) (ur_Description req),
      ur_Status = map_option (\<lambda>v. []) (ur_Status req),
      ur_Category = map_option (\<lambda>v. []) (ur_Category req),
      ur_ProgressPercent = map_option (\<lambda>v. 0) (ur_ProgressPercent req)\<rparr>"

text \<open>
  The columns the store binds the placeholders of a text to, in order; \<open>None\<close> for a text
  it cannot read.
\<close>

definition placeholder_columns :: "string \<Rightarrow> string list option" where
  "placeholder_columns q = map_option (\<lambda>sts. concat (map stmt_params sts)) (parse_sql q)"

text \<open>What an update request makes of a row at the time \<open>now\<close>.\<close>

definition apply_update :: "string \<Rightarrow> UpdateTodoRequest \<Rightarrow> row \<Rightarrow> row" where
  "apply_update now req r =
     r\<lparr>r_title := (case ur_Title req of None \<Rightarrow> r_title r | Some v \<Rightarrow> v),
       r_description := (case ur_Description req of None \<Rightarrow> r_description r | Some v \<Rightarrow> v),
       r_status := (case ur_Status req of None \<Rightarrow> r_status r | Some v \<Rightarrow> v),
       r_category := (case ur_Category req of None \<Rightarrow> r_category r | Some v \<Rightarrow> v),
       r_progress_percent := (case ur_ProgressPercent req of None \<Rightarrow> r_progress_percent r | Some v \<Rightarrow> v),
       r_updated_at := Some now\<rparr>"

text \<open>A timestamp text as the repository reads it: the parsed instant, or the zero instant.\<close>

definition parse_or_zero :: "(string \<Rightarrow> Time option) \<Rightarrow> string \<Rightarrow> Time" where
  "parse_or_zero P v = (case P v of None \<Rightarrow> zero_Time | Some t \<Rightarrow> t)"

text \<open>The record that stands for a row whose two timestamps are the texts \<open>c\<close> and \<open>u\<close>.\<close>

definition row_Todo :: "(string \<Rightarrow> Time option) \<Rightarrow> row \<Rightarrow> string \<Rightarrow> string \<Rightarrow> Todo" where
  "row_Todo P r c u =
     \<lparr>ID = r_id r, Title = r_title r, Description = r_description r, Status = r_status r,
      Category = r_category r, ProgressPercent = r_progress_percent r,
      CreatedAt = parse_or_zero P c, UpdatedAt = parse_or_zero P u\<rparr>"

text \<open>What reading one stored row gives: its record, or the scan error for a NULL timestamp.\<close>

definition read_row :: "(string \<Rightarrow> Time option) \<Rightarrow> row \<Rightarrow> error + Todo" where
  "read_row P r =
     (case (r_created_at r, r_updated_at r) of
        (Some c, Some u) \<Rightarrow> Inr (row_Todo P r c u)
      | _ \<Rightarrow> Inl (Wrap ''scan todo'' (ErrSQL ''sql: Scan error'')))"

text \<open>Both timestamps of the row are texts.\<close>

definition timestamps_text :: "row \<Rightarrow> bool" where
  "timestamps_text r = (r_created_at r \<noteq> None \<and> r_updated_at r \<noteq> None)"

text \<open>The row satisfies every filter that is present.\<close>

definition matches :: "Status option \<Rightarrow> Category option \<Rightarrow> row \<Rightarrow> bool" where
  "matches status category r =
     ((case status of None \<Rightarrow> True | Some v \<Rightarrow> r_status r = v) \<and>
      (case category of None \<Rightarrow> True | Some v \<Rightarrow> r_category r = v))"

text \<open>The stored state: everything of the store but the clock and the record of statements.\<close>

definition stored :: "store \<Rightarrow> column list option \<times> (string \<times> string) list \<times> row list \<times> int" where
  "stored s = (columns s, indexes s, rows s, sequence s)"

text \<open>The schema: the column catalogue and the indexes.\<close>

definition schema :: "store \<Rightarrow> column list option \<times> (string \<times> string) list" where
  "schema s = (columns s, indexes s)"

text \<open>The store with one more statement on record.\<close>

definition traced :: "store \<Rightarrow> string \<Rightarrow> sqlval list \<Rightarrow> store" where
  "traced s q args = s\<lparr>trace := trace s @ [(q, args)]\<rparr>"

text \<open>The statement \<open>UpdateTodo\<close> hands to the driver for a request that carries a field.\<close>

definition UpdateTodo_issued :: "int \<Rightarrow> UpdateTodoRequest \<Rightarrow> string \<times> sqlval list" where
  "UpdateTodo_issued i req =
     (case UpdateTodo_clauses req of (setClauses, args) \<Rightarrow> UpdateTodo_stmt i setClauses args)"

text \<open>The record read from a stored row (the zero record where it cannot be read).\<close>

definition stored_Todo :: "(string \<Rightarrow> Time option) \<Rightarrow> row \<Rightarrow> Todo" where
  "stored_Todo P r = (case read_row P r of Inr t \<Rightarrow> t | Inl e \<Rightarrow> zero_Todo)"

text \<open>The row an insert of the request adds, and the arguments it is sent with.\<close>

definition created_row :: "store \<Rightarrow> CreateTodoRequest \<Rightarrow> row" where
  "created_row s req =
     \<lparr>r_id = next_id s, r_title = cr_Title req, r_description = cr_Description req,
      r_status = (if cr_Status req = [] then ''pending'' else cr_Status req),
      r_category = (if cr_Category req = [] then ''personal'' else cr_Category req),
      r_progress_percent = (case cr_ProgressPercent req of None \<Rightarrow> 0 | Some p \<Rightarrow> p),
      r_created_at = Some (clock s), r_updated_at = Some (clock s)\<rparr>"

definition CreateTodo_args :: "CreateTodoRequest \<Rightarrow> sqlval list" where
  "CreateTodo_args req =
     [SText (cr_Title req), SText (cr_Description req),
      SText (if cr_Status req = [] then ''pending'' else cr_Status req),
      SText (if cr_Category req = [] then ''personal'' else cr_Category req),
      SInt (case cr_ProgressPercent req of None \<Rightarrow> 0 | Some p \<Rightarrow> p)]"

text \<open>A request that carries no field.\<close>

definition no_fields :: UpdateTodoRequest where
  "no_fields = \<lparr>ur_Title = None, ur_Description = None, ur_Status = None, ur_Category = None,
     ur_ProgressPercent = None\<rparr>"

section \<open>Example data\<close>

text \<open>
  Concrete inputs on which the theorems below are exercised: a parser that reads two
  instants and nothing else, a migrated store with three rows (the third with a creation
  time that is a text but no instant), a store whose only row has a creation time the store
  cannot format, a store with no table, and a store from before the category column.
\<close>

definition example_parse :: "string \<Rightarrow> Time option" where
  "example_parse v =
     (if v = ''2026-02-12T15:04:05Z'' then Some (Time 63906505445 0)
      else if v = ''2026-02-12T15:04:06Z'' then Some (Time 63906505446 0)
      else None)"

definition example_rows :: "row list" where
  "example_rows =
    [\<lparr>r_id = 1, r_title = ''Plan sprint'', r_description = ''backlog'', r_status = ''pending'',
       r_category = ''work'', r_progress_percent = 0,
       r_created_at = Some ''2026-02-12T15:04:05Z'', r_updated_at = Some ''2026-02-12T15:04:05Z''\<rparr>,
     \<lparr>r_id = 2, r_title = ''Buy milk'', r_description = [], r_status = ''pending'',
       r_category = ''personal'', r_progress_percent = 0,
       r_created_at = Some ''2026-02-12T15:04:05Z'', r_updated_at = Some ''2026-02-12T15:04:05Z''\<rparr>,
     \<lparr>r_id = 3, r_title = ''Call home'', r_description = ''sunday'', r_status = ''done'',
       r_category = ''personal'', r_progress_percent = 100,
       r_created_at = Some ''yesterday'', r_updated_at = Some ''2026-02-12T15:04:05Z''\<rparr>]"

definition example_store :: store where
  "example_store =
     \<lparr>columns = Some (base_columns @ [category_column]),
      indexes = [(''idx_todos_status'', ''status''), (''idx_todos_category'', ''category'')],
      rows = example_rows, sequence = 3, clock = ''2026-02-12T15:04:06Z'', trace = []\<rparr>"


definition fresh_store :: store where
  "fresh_store =
     \<lparr>columns = None, indexes = [], rows = [], sequence = 0, clock = ''2026-02-12T15:04:05Z'',
      trace = []\<rparr>"

definition legacy_store :: store where
  "legacy_store =
     \<lparr>columns = Some base_columns, indexes = [(''idx_todos_status'', ''status'')],
      rows =
        [\<lparr>r_id = 1, r_title = ''Plan sprint'', r_description = ''backlog'', r_status = ''pending'',
          r_category = [], r_progress_percent = 0,
          r_created_at = Some ''2026-02-12T15:04:05Z'', r_updated_at = Some ''2026-02-12T15:04:05Z''\<rparr>],
      sequence = 1, clock = ''2026-02-12T15:04:06Z'', trace = []\<rparr>"

definition example_update :: UpdateTodoRequest where
  "example_update = \<lparr>ur_Title = None, ur_Description = Some [], ur_Status = None,
     ur_Category = None, ur_ProgressPercent = Some 50\<rparr>"

definition example_create :: CreateTodoRequest where
  "example_create = \<lparr>cr_Title = ''Buy milk'', cr_Description = [], cr_Status = [],
     cr_Category = [], cr_ProgressPercent = None\<rparr>"

section \<open>Reading the statements\<close>

lemmas sql_texts = sql_schema_def sql_migration_def sql_category_index_def sql_table_info_def
  sql_insert_def sql_get_def sql_delete_def sql_select_columns_def nl_tabs_def

lemma parse_schema:
  "parse_sql sql_schema = Some [Create_table_todos, Create_index ''idx_todos_status'' ''status'']"
  by (simp add: parse_sql_def)

lemma parse_migration: "parse_sql sql_migration = Some [Add_column_category]"
  by (simp add: parse_sql_def sql_schema_def sql_migration_def nl_tabs_def)

lemma parse_category_index:
  "parse_sql sql_category_index = Some [Create_index ''idx_todos_category'' ''category'']"
  by (simp add: parse_sql_def sql_schema_def sql_migration_def sql_category_index_def nl_tabs_def)

lemma parse_table_info: "parse_sql sql_table_info = Some [Table_info]"
  by (simp add: parse_sql_def sql_schema_def sql_migration_def sql_category_index_def
      sql_table_info_def nl_tabs_def)

lemma parse_insert: "parse_sql sql_insert = Some [Insert_todo]"
  by (simp add: parse_sql_def sql_schema_def sql_migration_def sql_category_index_def
      sql_table_info_def sql_insert_def nl_tabs_def)

lemma parse_get: "parse_sql sql_get = Some [Select_by_id]"
  by (simp add: parse_sql_def sql_schema_def sql_migration_def sql_category_index_def
      sql_table_info_def sql_insert_def sql_get_def sql_select_columns_def nl_tabs_def)


lemma parse_sql_update:
  "parse_sql (''UPDATE todos SET '' @ r) = map_option (\<lambda>st. [st]) (parse_update r)"
  by (simp add: parse_sql_def sql_texts)

lemma parse_sql_list:
  "parse_sql (sql_select_columns 2 @ r) =
     map_option (\<lambda>st. [st]) (parse_list r)"
  by (simp add: parse_sql_def sql_texts eval_nat_numeral)


section \<open>What the store does with each statement\<close>

lemma table_ready_trace [simp]: "table_ready (s\<lparr>trace := t\<rparr>) = table_ready s"
  by (simp add: table_ready_def column_names_def)

lemma next_id_trace [simp]: "next_id (s\<lparr>trace := t\<rparr>) = next_id s"
  by (simp add: next_id_def)

lemma first_of_filter:
  "(case map f (filter p xs) of [] \<Rightarrow> (a, Inl e) | v # vs \<Rightarrow> (a, Inr v)) =
   (a, case find p xs of None \<Rightarrow> Inl e | Some r \<Rightarrow> Inr (f r))"
  by (induction xs) auto

lemma db_QueryRow_get:
  "db_QueryRow s sql_get [SInt i] =
     (traced s sql_get [SInt i],
      if \<not> table_ready s then Inl (ErrSQL ''no such table or column'')
      else (case find (\<lambda>r. r_id r = i) (rows s) of
              None \<Rightarrow> Inl ErrNoRows
            | Some r \<Rightarrow> Inr (row_values r)))"
  by (simp add: db_QueryRow_def db_Query_def db_run_def parse_get traced_def first_of_filter)

lemma scan_row_values: "scanTodo P (Inr (row_values r)) = read_row P r"
  by (cases "r_created_at r"; cases "r_updated_at r")
     (simp_all add: scanTodo_def row_values_def timestamp_value_def read_row_def row_Todo_def
        parse_or_zero_def time_Parse_def split: option.splits)

lemma GetTodo_eq:
  "GetTodo P s i =
     (traced s sql_get [SInt i],
      if \<not> table_ready s then Inl (Wrap ''scan todo'' (ErrSQL ''no such table or column''))
      else (case find (\<lambda>r. r_id r = i) (rows s) of
              None \<Rightarrow> Inl ErrNotFound
            | Some r \<Rightarrow> read_row P r))"
  by (simp add: GetTodo_def db_QueryRow_get scan_row_values split: option.splits)
     (simp add: scanTodo_def)

subsection \<open>DELETE\<close>



subsection \<open>INSERT\<close>

lemma fold_max_ge: "a \<le> fold max xs (a::int)"
  by (induction xs arbitrary: a) (auto intro: order_trans [OF max.cobounded2])

lemma fold_max_mem: "x \<in> set xs \<Longrightarrow> x \<le> fold max xs (a::int)"
proof (induction xs arbitrary: a)
  case Nil
  then show ?case by simp
next
  case (Cons y ys)
  show ?case
  proof (cases "x = y")
    case True
    have "y \<le> max y a" by simp
    also have "\<dots> \<le> fold max ys (max y a)" by (rule fold_max_ge)
    finally show ?thesis using True by simp
  next
    case False
    with Cons show ?thesis by simp
  qed
qed

lemma next_id_fresh: "r \<in> set (rows s) \<Longrightarrow> r_id r < next_id s"
  using fold_max_mem [of "r_id r" "map r_id (rows s)" "sequence s"] by (simp add: next_id_def)

lemma next_id_above_sequence: "sequence s < next_id s"
  using fold_max_ge [of "sequence s" "map r_id (rows s)"] by (simp add: next_id_def)

lemma find_fresh: "find (\<lambda>r. r_id r = next_id s) (rows s) = None"
  using next_id_fresh [of _ s] by (fastforce simp: find_None_iff)

lemma find_snoc:
  "find p (xs @ [x]) = (case find p xs of None \<Rightarrow> (if p x then Some x else None) | Some y \<Rightarrow> Some y)"
  by (induction xs) auto

lemma db_Exec_insert:
  "db_Exec s sql_insert (CreateTodo_args req) =
     (if \<not> table_ready s
      then (traced s sql_insert (CreateTodo_args req), Inl (ErrSQL ''no such table or column''))
      else if \<not> check_row (created_row s req)
      then (traced s sql_insert (CreateTodo_args req), Inl (ErrSQL ''CHECK constraint failed''))
      else if next_id s > 9223372036854775807
      then (traced s sql_insert (CreateTodo_args req), Inl (ErrSQL ''database or disk is full''))
      else ((traced s sql_insert (CreateTodo_args req))
              \<lparr>rows := rows s @ [created_row s req], sequence := next_id s\<rparr>,
            Inr \<lparr>LastInsertId = next_id s, RowsAffected = 1\<rparr>))"
  by (simp add: db_Exec_def db_run_def parse_insert traced_def CreateTodo_args_def created_row_def
      Let_def)

lemma read_created_row:
  "read_row P (created_row s req) = Inr (row_Todo P (created_row s req) (clock s) (clock s))"
  by (simp add: read_row_def created_row_def)

lemma CreateTodo_eq:
  "CreateTodo P s req =
     (if \<not> table_ready s
      then (traced s sql_insert (CreateTodo_args req),
            Inl (Wrap ''insert todo'' (ErrSQL ''no such table or column'')))
      else if \<not> check_row (created_row s req)
      then (traced s sql_insert (CreateTodo_args req),
            Inl (Wrap ''insert todo'' (ErrSQL ''CHECK constraint failed'')))
      else if next_id s > 9223372036854775807
      then (traced s sql_insert (CreateTodo_args req),
            Inl (Wrap ''insert todo'' (ErrSQL ''database or disk is full'')))
      else (traced ((traced s sql_insert (CreateTodo_args req))
                      \<lparr>rows := rows s @ [created_row s req], sequence := next_id s\<rparr>)
              sql_get [SInt (next_id s)],
            Inr (row_Todo P (created_row s req) (clock s) (clock s))))"
proof -
  have args: "[SText (cr_Title req), SText (cr_Description req),
        SText (if cr_Status req \<noteq> [] then cr_Status req else StatusPending),
        SText (if cr_Category req \<noteq> [] then cr_Category req else CategoryPersonal),
        SInt (case cr_ProgressPercent req of None \<Rightarrow> 0 | Some p \<Rightarrow> p)] = CreateTodo_args req"
    by (simp add: CreateTodo_args_def StatusPending_def CategoryPersonal_def)
  have ready: "table_ready (traced s q a\<lparr>rows := rs, sequence := n\<rparr>) = table_ready s" for q a rs n
    by (simp add: table_ready_def column_names_def traced_def)
  have found: "find (\<lambda>r. r_id r = next_id s) (rows s @ [created_row s req]) = Some (created_row s req)"
    by (simp add: find_snoc find_fresh) (simp add: created_row_def)
  show ?thesis
    unfolding CreateTodo_def Let_def args db_Exec_insert
    by (simp add: GetTodo_eq ready found read_created_row)
qed


subsection \<open>UPDATE\<close>

lemma clauses_args: "snd (UpdateTodo_clauses req) = map snd (present_fields req)"
  by (simp add: UpdateTodo_clauses_def present_fields_def split: option.splits)

lemma clauses_text: "fst (UpdateTodo_clauses req) = map (\<lambda>b. fst b @ '' = ?'') (present_fields req)"
  by (simp add: UpdateTodo_clauses_def present_fields_def split: option.splits)

lemma issued_args: "snd (UpdateTodo_issued i req) = map snd (present_fields req) @ [SInt i]"
  using clauses_args [of req]
  by (cases "UpdateTodo_clauses req") (simp add: UpdateTodo_issued_def UpdateTodo_stmt_def)

lemma issued_text:
  "fst (UpdateTodo_issued i req) =
     ''UPDATE todos SET '' @
     strings_Join (fst (UpdateTodo_clauses req) @ [''updated_at = datetime('now')'']) '', '' @
     '' WHERE id = ?''"
  by (cases "UpdateTodo_clauses req") (simp add: UpdateTodo_issued_def UpdateTodo_stmt_def)

lemma update_parse:
  "parse_sql (fst (UpdateTodo_issued i req)) =
     Some [Update_by_id (map (\<lambda>b. Set_param (fst b)) (present_fields req) @ [Set_now ''updated_at''])]"
  unfolding issued_text parse_sql_update
  by (cases "ur_Title req"; cases "ur_Description req"; cases "ur_Status req"; cases "ur_Category req";
      cases "ur_ProgressPercent req";
      simp add: UpdateTodo_clauses_def present_fields_def
        parse_update_def parse_assign_def split_on_def)

lemma assign_params_present:
  "assign_params (map (\<lambda>b. Set_param (fst b)) pf @ [Set_now u]) = map fst pf"
  by (induction pf) auto

lemma bind_present:
  "bind_assigns now (map (\<lambda>b. Set_param (fst b)) pf @ [Set_now u]) (map snd pf) = pf @ [(u, SText now)]"
  by (induction pf) auto

lemma set_columns_present:
  "set_columns r (present_fields req @ [(''updated_at'', SText now)]) = Some (apply_update now req r)"
  by (cases "ur_Title req"; cases "ur_Description req"; cases "ur_Status req"; cases "ur_Category req";
      cases "ur_ProgressPercent req"; simp add: present_fields_def apply_update_def)

lemma update_row_present:
  "update_row (present_fields req @ [(''updated_at'', SText now)]) r =
     (if check_row (apply_update now req r) then Some (apply_update now req r) else None)"
  by (simp add: update_row_def set_columns_present)

lemma db_Exec_update:
  "db_Exec s (fst (UpdateTodo_issued i req)) (snd (UpdateTodo_issued i req)) =
     (if \<not> table_ready s
      then (traced s (fst (UpdateTodo_issued i req)) (snd (UpdateTodo_issued i req)),
            Inl (ErrSQL ''no such table or column''))
      else if list_all (\<lambda>r. check_row (apply_update (clock s) req r))
                (filter (\<lambda>r. r_id r = i) (rows s))
      then ((traced s (fst (UpdateTodo_issued i req)) (snd (UpdateTodo_issued i req)))
              \<lparr>rows := map (\<lambda>r. if r_id r = i then apply_update (clock s) req r else r) (rows s)\<rparr>,
            Inr \<lparr>LastInsertId = 0, RowsAffected = int (length (filter (\<lambda>r. r_id r = i) (rows s)))\<rparr>)
      else (traced s (fst (UpdateTodo_issued i req)) (snd (UpdateTodo_issued i req)),
            Inl (ErrSQL ''constraint failed or datatype mismatch'')))"
proof -
  have m: "map (\<lambda>r. if p r then the (update_row (present_fields req @ [(''updated_at'', SText now)]) r)
                    else r) xs =
           map (\<lambda>r. if p r then apply_update now req r else r) xs"
    if "list_all (\<lambda>r. check_row (apply_update now req r)) (filter p xs)"
    for p now and xs :: "row list"
    using that by (auto simp: list_all_iff update_row_present)
  show ?thesis
    unfolding db_Exec_def db_run_def update_parse
    by (simp add: issued_args assign_params_present bind_present update_row_present traced_def
        Let_def m)
qed


lemma UpdateTodo_eq:
  "UpdateTodo P s i req =
     (if present_fields req = [] then GetTodo P s i
      else (case db_Exec s (fst (UpdateTodo_issued i req)) (snd (UpdateTodo_issued i req)) of
              (s', Inl err) \<Rightarrow> (s', Inl (Wrap ''update todo'' err))
            | (s', Inr result) \<Rightarrow>
                if RowsAffected result = 0 then (s', Inl ErrNotFound) else GetTodo P s' i))"
  using clauses_text [of req]
  by (cases "UpdateTodo_clauses req"; cases "UpdateTodo_stmt i (fst (UpdateTodo_clauses req)) (snd (UpdateTodo_clauses req))")
     (auto simp: UpdateTodo_def UpdateTodo_issued_def)

lemma map_hit_none: "filter p xs = [] \<Longrightarrow> map (\<lambda>r. if p r then g r else r) xs = xs"
  by (induction xs) (auto split: if_splits)

lemma find_map_hit:
  "(\<And>r. r_id (g r) = r_id r) \<Longrightarrow>
   find (\<lambda>r. r_id r = i) (map (\<lambda>r. if r_id r = i then g r else r) xs) =
   map_option g (find (\<lambda>r. r_id r = i) xs)"
  by (induction xs) auto

lemma filter_empty_find: "(filter p xs = []) = (find p xs = None)"
  by (induction xs) auto

lemma apply_update_id [simp]: "r_id (apply_update now req r) = r_id r"
  by (simp add: apply_update_def)

lemma apply_update_created [simp]: "r_created_at (apply_update now req r) = r_created_at r"
  by (simp add: apply_update_def)

lemma apply_update_updated [simp]: "r_updated_at (apply_update now req r) = Some now"
  by (simp add: apply_update_def)

text \<open>The whole of an update that carries a field.\<close>

lemma UpdateTodo_write:
  assumes "present_fields req \<noteq> []"
  shows "UpdateTodo P s i req =
     (if \<not> table_ready s
      then (traced s (fst (UpdateTodo_issued i req)) (snd (UpdateTodo_issued i req)),
            Inl (Wrap ''update todo'' (ErrSQL ''no such table or column'')))
      else if \<not> list_all (\<lambda>r. check_row (apply_update (clock s) req r))
                (filter (\<lambda>r. r_id r = i) (rows s))
      then (traced s (fst (UpdateTodo_issued i req)) (snd (UpdateTodo_issued i req)),
            Inl (Wrap ''update todo'' (ErrSQL ''constraint failed or datatype mismatch'')))
      else (case find (\<lambda>r. r_id r = i) (rows s) of
              None \<Rightarrow> (traced s (fst (UpdateTodo_issued i req)) (snd (UpdateTodo_issued i req)),
                       Inl ErrNotFound)
            | Some r \<Rightarrow>
                (traced ((traced s (fst (UpdateTodo_issued i req)) (snd (UpdateTodo_issued i req)))
                           \<lparr>rows := map (\<lambda>r. if r_id r = i then apply_update (clock s) req r else r)
                                      (rows s)\<rparr>)
                   sql_get [SInt i],
                 read_row P (apply_update (clock s) req r))))"
proof -
  have ready: "table_ready (traced s q a\<lparr>rows := rs\<rparr>) = table_ready s" for q a rs
    by (simp add: table_ready_def column_names_def traced_def)
  have unchanged: "traced s q a\<lparr>rows := rows s\<rparr> = traced s q a" for q a
    by (simp add: traced_def)
  show ?thesis
    using assms
    by (simp add: UpdateTodo_eq db_Exec_update GetTodo_eq ready find_map_hit
          filter_empty_find map_hit_none unchanged split: option.splits)
qed


subsection \<open>SELECT with filters\<close>

lemma db_Query_list:
  "db_Query s (fst (ListTodos_stmt status category)) (snd (ListTodos_stmt status category)) =
     (traced s (fst (ListTodos_stmt status category)) (snd (ListTodos_stmt status category)),
      if \<not> table_ready s then Inl (ErrSQL ''no such table or column'')
      else Inr (map row_values (sort_key r_id (filter (matches status category) (rows s)))))"
proof -
  have eq: "(SText v = SText w) = (v = w)" for v w by auto
  have m: "matches None None = (\<lambda>r. True)"
    "matches None (Some c) = (\<lambda>r. c = r_category r)"
    "matches (Some a) None = (\<lambda>r. a = r_status r)"
    "matches (Some a) (Some c) = (\<lambda>r. a = r_status r \<and> c = r_category r)" for a c
    by (auto simp: matches_def fun_eq_iff)
  show ?thesis
    by (cases status; cases category)
       (simp_all add: ListTodos_stmt_def parse_sql_list parse_list_def split_on_def
          parse_condition_def db_Query_def db_run_def traced_def m condition_holds_def eq)
qed

lemma row_Scan_values:
  "row_Scan (row_values r) =
     (case (r_created_at r, r_updated_at r) of
        (Some c, Some u) \<Rightarrow>
          Inr (r_id r, r_title r, r_description r, r_status r, r_category r,
               r_progress_percent r, c, u)
      | _ \<Rightarrow> Inl (ErrSQL ''sql: Scan error''))"
  by (cases "r_created_at r"; cases "r_updated_at r")
     (simp_all add: row_values_def timestamp_value_def)

lemma stored_Todo_text:
  "r_created_at r = Some c \<Longrightarrow> r_updated_at r = Some u \<Longrightarrow> stored_Todo P r = row_Todo P r c u"
  by (simp add: stored_Todo_def read_row_def)

lemma loop_ok:
  "list_all timestamps_text rs \<Longrightarrow>
   ListTodos_loop P (map row_values rs) acc =
     Inr (if rs = [] then acc
          else Some ((case acc of None \<Rightarrow> [] | Some xs \<Rightarrow> xs) @ map (stored_Todo P) rs))"
proof (induction rs arbitrary: acc)
  case Nil
  then show ?case by simp
next
  case (Cons r rs)
  from Cons.prems obtain c u where cu: "r_created_at r = Some c" "r_updated_at r = Some u"
    by (auto simp: timestamps_text_def)
  from Cons.prems have rest: "list_all timestamps_text rs" by simp
  show ?case
    by (simp add: row_Scan_values cu Cons.IH [OF rest] stored_Todo_text [OF cu] row_Todo_def
        parse_or_zero_def time_Parse_def append_slice_def split: option.splits)
qed

lemma loop_fail:
  "\<not> list_all timestamps_text rs \<Longrightarrow>
   ListTodos_loop P (map row_values rs) acc = Inl (Wrap ''scan todo'' (ErrSQL ''sql: Scan error''))"
proof (induction rs arbitrary: acc)
  case Nil
  then show ?case by simp
next
  case (Cons r rs)
  show ?case
  proof (cases "timestamps_text r")
    case True
    then obtain c u where cu: "r_created_at r = Some c" "r_updated_at r = Some u"
      by (auto simp: timestamps_text_def)
    from True Cons.prems have "\<not> list_all timestamps_text rs" by simp
    then show ?thesis by (simp add: row_Scan_values cu Cons.IH)
  next
    case False
    then show ?thesis
      by (cases "r_created_at r"; cases "r_updated_at r")
         (simp_all add: row_Scan_values timestamps_text_def)
  qed
qed

lemma ListTodos_eq:
  "ListTodos P s status category =
     (traced s (fst (ListTodos_stmt status category)) (snd (ListTodos_stmt status category)),
      if \<not> table_ready s then Inl (Wrap ''query todos'' (ErrSQL ''no such table or column''))
      else if list_all timestamps_text (sort_key r_id (filter (matches status category) (rows s)))
      then Inr (Some (map (stored_Todo P) (sort_key r_id (filter (matches status category) (rows s)))))
      else Inl (Wrap ''scan todo'' (ErrSQL ''sql: Scan error'')))"
  by (cases "ListTodos_stmt status category")
     (use db_Query_list [of s status category] in
       \<open>auto simp: ListTodos_def loop_ok loop_fail\<close>)


subsection \<open>The schema statements\<close>

lemma info_Scan_values: "info_Scan (info_values cid c) = Inr (col_name c)"
  by (cases "col_default c") (simp_all add: info_values_def)

lemma has_category_info:
  "has_category (map (\<lambda>(cid, c). info_values cid c) (enumerate n cs)) =
     Inr (''category'' \<in> set (map col_name cs))"
  by (induction cs arbitrary: n) (auto simp: info_Scan_values)

lemma db_Query_table_info:
  "db_Query s sql_table_info [] =
     (traced s sql_table_info [],
      Inr (case columns s of None \<Rightarrow> []
           | Some cs \<Rightarrow> map (\<lambda>(cid, c). info_values cid c) (enumerate 0 cs)))"
  by (simp add: db_Query_def db_run_def parse_table_info traced_def split: option.splits)

lemma db_Exec_migration:
  "db_Exec s sql_migration [] =
     (case columns s of
        None \<Rightarrow> (traced s sql_migration [], Inl (ErrSQL ''no such table: todos''))
      | Some cs \<Rightarrow>
          if ''category'' \<in> set (map col_name cs)
          then (traced s sql_migration [], Inl (ErrSQL ''duplicate column name: category''))
          else ((traced s sql_migration [])
                  \<lparr>columns := Some (cs @ [category_column]),
                   rows := map (\<lambda>r. r\<lparr>r_category := ''personal''\<rparr>) (rows s)\<rparr>,
                Inr no_result))"
  by (simp add: db_Exec_def db_run_def parse_migration traced_def split: option.splits)

lemma db_Exec_index:
  "db_Exec s sql_category_index [] =
     (if columns s = None then (traced s sql_category_index [], Inl (ErrSQL ''no such table: todos''))
      else if ''idx_todos_category'' \<in> set (map fst (indexes s))
      then (traced s sql_category_index [], Inr no_result)
      else if ''category'' \<notin> set (column_names s)
      then (traced s sql_category_index [], Inl (ErrSQL ''no such column''))
      else ((traced s sql_category_index [])
              \<lparr>indexes := indexes s @ [(''idx_todos_category'', ''category'')]\<rparr>,
            Inr no_result))"
  by (cases "columns s")
     (simp_all add: db_Exec_def db_run_def parse_category_index traced_def column_names_def Let_def)

lemma db_Exec_schema_present:
  "columns s = Some cs \<Longrightarrow>
   db_Exec s sql_schema [] =
     (if ''idx_todos_status'' \<in> set (map fst (indexes s))
      then (traced s sql_schema [], Inr no_result)
      else if ''status'' \<notin> set (map col_name cs)
      then (traced s sql_schema [], Inl (ErrSQL ''no such column''))
      else ((traced s sql_schema [])\<lparr>indexes := indexes s @ [(''idx_todos_status'', ''status'')]\<rparr>,
            Inr no_result))"
  by (simp add: db_Exec_def db_run_def parse_schema traced_def column_names_def Let_def)

lemma db_Exec_schema_absent:
  "columns s = None \<Longrightarrow>
   db_Exec s sql_schema [] =
     (if ''idx_todos_status'' \<in> set (map fst (indexes s))
      then ((traced s sql_schema [])\<lparr>columns := Some base_columns, rows := []\<rparr>, Inr no_result)
      else ((traced s sql_schema [])
              \<lparr>columns := Some base_columns, rows := [],
               indexes := indexes s @ [(''idx_todos_status'', ''status'')]\<rparr>,
            Inr no_result))"
  by (simp add: db_Exec_def db_run_def parse_schema traced_def column_names_def base_columns_def Let_def)

lemma addCategoryColumn_present:
  "columns s = Some cs \<Longrightarrow> ''category'' \<in> set (map col_name cs) \<Longrightarrow>
   addCategoryColumn s = (traced s sql_table_info [], None)"
  by (simp add: addCategoryColumn_def db_Query_table_info has_category_info)

lemma addCategoryColumn_absent:
  "columns s = Some cs \<Longrightarrow> ''category'' \<notin> set (map col_name cs) \<Longrightarrow>
   addCategoryColumn s =
     (let s2 = (traced (traced s sql_table_info []) sql_migration [])
                 \<lparr>columns := Some (cs @ [category_column]),
                  rows := map (\<lambda>r. r\<lparr>r_category := ''personal''\<rparr>) (rows s)\<rparr>
      in if ''idx_todos_category'' \<in> set (map fst (indexes s))
         then (traced s2 sql_category_index [], None)
         else ((traced s2 sql_category_index [])
                 \<lparr>indexes := indexes s @ [(''idx_todos_category'', ''category'')]\<rparr>, None))"
  by (simp add: addCategoryColumn_def db_Query_table_info has_category_info db_Exec_migration
        db_Exec_index Let_def)
     (simp add: traced_def column_names_def category_column_def)

lemma addCategoryColumn_no_table:
  "columns s = None \<Longrightarrow> snd (addCategoryColumn s) \<noteq> None"
  by (simp add: addCategoryColumn_def db_Query_table_info db_Exec_migration traced_def)

section \<open>The statement builders\<close>

lemma update_count:
  "count_list (fst (UpdateTodo_issued i req)) CHR ''?'' = length (snd (UpdateTodo_issued i req))"
  unfolding issued_text issued_args
  by (cases "ur_Title req"; cases "ur_Description req"; cases "ur_Status req"; cases "ur_Category req";
      cases "ur_ProgressPercent req"; simp add: UpdateTodo_clauses_def present_fields_def)

lemma update_columns:
  "placeholder_columns (fst (UpdateTodo_issued i req)) = Some (map fst (present_fields req) @ [''id''])"
  by (simp add: placeholder_columns_def update_parse assign_params_present)

lemma update_values:
  "map (update_value req i) (map fst (present_fields req) @ [''id'']) =
   map Some (snd (UpdateTodo_issued i req))"
  unfolding issued_args
  by (cases "ur_Title req"; cases "ur_Description req"; cases "ur_Status req"; cases "ur_Category req";
      cases "ur_ProgressPercent req"; simp add: present_fields_def update_value_def)

lemma update_text_presence:
  "fst (UpdateTodo_issued i req) = fst (UpdateTodo_issued 0 (presence_only req))"
  unfolding issued_text
  by (simp add: UpdateTodo_clauses_def presence_only_def split: option.splits)

lemma list_count:
  "count_list (fst (ListTodos_stmt status category)) CHR ''?'' = length (snd (ListTodos_stmt status category))"
  by (cases status; cases category)
     (simp_all add: ListTodos_stmt_def sql_select_columns_def nl_tabs_def)

lemma list_columns:
  "placeholder_columns (fst (ListTodos_stmt status category)) =
     Some ((case status of None \<Rightarrow> [] | Some v \<Rightarrow> [''status'']) @
           (case category of None \<Rightarrow> [] | Some v \<Rightarrow> [''category'']))"
  by (cases status; cases category)
     (simp_all add: placeholder_columns_def ListTodos_stmt_def parse_sql_list parse_list_def
        split_on_def parse_condition_def)

lemma list_values:
  "map (filter_value status category)
     ((case status of None \<Rightarrow> [] | Some v \<Rightarrow> [''status'']) @
      (case category of None \<Rightarrow> [] | Some v \<Rightarrow> [''category''])) =
   map Some (snd (ListTodos_stmt status category))"
  by (cases status; cases category) (simp_all add: ListTodos_stmt_def filter_value_def)

lemma list_text_presence:
  "fst (ListTodos_stmt status category) =
   fst (ListTodos_stmt (map_option (\<lambda>v. []) status) (map_option (\<lambda>v. []) category))"
  by (cases status; cases category) (simp_all add: ListTodos_stmt_def)

lemma list_args:
  "snd (ListTodos_stmt status category) =
     (case status of None \<Rightarrow> [] | Some v \<Rightarrow> [SText v]) @
     (case category of None \<Rightarrow> [] | Some v \<Rightarrow> [SText v])"
  by (cases status; cases category) (simp_all add: ListTodos_stmt_def)

text \<open>
  C2. Whatever fields of an update request and whatever filters of a list call are present:
  the arguments handed to the driver are exactly the values of the present fields, in the
  order title, description, status, category, progress_percent, followed by the identifier
  (for a list call: the present filters, status before category); the store binds the
  placeholders of the text, in the order they stand in it, to exactly the columns of those
  fields followed by \<open>id\<close> (the columns of those filters), so the k-th placeholder is the
  column whose value the k-th argument is; the text has as many \<open>?\<close> as there are
  arguments; and the text is the one built for the same fields with other values (and
  another identifier), so no value is part of it.
\<close>

theorem placeholders_match_arguments:
  "(snd (UpdateTodo_issued i req) = map snd (present_fields req) @ [SInt i] \<and>
    placeholder_columns (fst (UpdateTodo_issued i req)) =
      Some (map fst (present_fields req) @ [''id'']) \<and>
    map (update_value req i) (map fst (present_fields req) @ [''id'']) =
      map Some (snd (UpdateTodo_issued i req)) \<and>
    count_list (fst (UpdateTodo_issued i req)) CHR ''?'' = length (snd (UpdateTodo_issued i req)) \<and>
    fst (UpdateTodo_issued i req) = fst (UpdateTodo_issued 0 (presence_only req))) \<and>
   (snd (ListTodos_stmt status category) =
      (case status of None \<Rightarrow> [] | Some v \<Rightarrow> [SText v]) @
      (case category of None \<Rightarrow> [] | Some v \<Rightarrow> [SText v]) \<and>
    placeholder_columns (fst (ListTodos_stmt status category)) =
      Some ((case status of None \<Rightarrow> [] | Some v \<Rightarrow> [''status'']) @
            (case category of None \<Rightarrow> [] | Some v \<Rightarrow> [''category''])) \<and>
    map (filter_value status category)
      ((case status of None \<Rightarrow> [] | Some v \<Rightarrow> [''status'']) @
       (case category of None \<Rightarrow> [] | Some v \<Rightarrow> [''category''])) =
      map Some (snd (ListTodos_stmt status category)) \<and>
    count_list (fst (ListTodos_stmt status category)) CHR ''?'' =
      length (snd (ListTodos_stmt status category)) \<and>
    fst (ListTodos_stmt status category) =
      fst (ListTodos_stmt (map_option (\<lambda>v. []) status) (map_option (\<lambda>v. []) category)))"
  using issued_args [of i req] update_count [of i req] update_columns [of i req]
    update_values [of req i] update_text_presence [of i req]
    list_args [of status category] list_count [of status category]
    list_columns [of status category] list_values [of status category]
    list_text_presence [of status category]
  by blast

section \<open>The example data\<close>

lemma example_ready: "table_ready example_store"
  by (simp add: example_store_def table_ready_def column_names_def base_columns_def category_column_def)


lemma example_update_present: "present_fields example_update \<noteq> []"
  by (simp add: present_fields_def example_update_def)

lemma example_absent: "999999 \<notin> set (map r_id (rows example_store))"
  by (simp add: example_store_def example_rows_def)


lemma example_find_1: "find (\<lambda>r. r_id r = 1) (rows example_store) = Some (example_rows ! 0)"
  by (simp add: example_store_def example_rows_def)


lemma example_find_3: "find (\<lambda>r. r_id r = 3) (rows example_store) = Some (example_rows ! 2)"
  by (simp add: example_store_def example_rows_def)

lemma example_update_checks:
  "list_all (\<lambda>r. check_row (apply_update (clock example_store) example_update r))
     (filter (\<lambda>r. r_id r = 1) (rows example_store))"
  by (simp add: example_store_def example_rows_def example_update_def apply_update_def check_row_def)

section \<open>Updates\<close>

lemma present_fields_empty:
  "(present_fields req = []) =
   (ur_Title req = None \<and> ur_Description req = None \<and> ur_Status req = None \<and>
    ur_Category req = None \<and> ur_ProgressPercent req = None)"
  by (simp add: present_fields_def split: option.splits)

lemma no_fields_present [simp]: "present_fields no_fields = []"
  by (simp add: present_fields_empty no_fields_def)

lemma apply_update_nothing:
  "present_fields req = [] \<Longrightarrow> apply_update now req r = r\<lparr>r_updated_at := Some now\<rparr>"
  by (simp add: present_fields_empty apply_update_def)

lemma filter_others:
  "(\<And>r. r_id (g r) = r_id r) \<Longrightarrow>
   filter (\<lambda>r. r_id r \<noteq> i) (map (\<lambda>r. if r_id r = i then g r else r) xs) =
   filter (\<lambda>r. r_id r \<noteq> i) xs"
  by (induction xs) auto

lemma absent_find: "i \<notin> set (map r_id xs) \<Longrightarrow> find (\<lambda>r. r_id r = i) xs = None"
  by (auto simp: find_None_iff)

lemma absent_filter: "i \<notin> set (map r_id xs) \<Longrightarrow> filter (\<lambda>r. r_id r = i) xs = []"
  by (induction xs) auto

lemma stored_traced [simp]: "stored (traced s q a) = stored s"
  by (simp add: stored_def traced_def)

lemma trace_traced [simp]: "trace (traced s q a) = trace s @ [(q, a)]"
  by (simp add: traced_def)

lemma rows_traced [simp]: "rows (traced s q a) = rows s"
  by (simp add: traced_def)

lemma GetTodo_store: "fst (GetTodo P s i) = traced s sql_get [SInt i]"
  by (simp add: GetTodo_eq)

lemma read_row_Inr:
  "read_row P r = Inr t \<Longrightarrow>
   \<exists>c u. r_created_at r = Some c \<and> r_updated_at r = Some u \<and> t = row_Todo P r c u"
  by (auto simp: read_row_def split: option.splits)

lemma read_row_text:
  "r_created_at r = Some c \<Longrightarrow> r_updated_at r = Some u \<Longrightarrow> read_row P r = Inr (row_Todo P r c u)"
  by (simp add: read_row_def)

lemma GetTodo_Inr:
  "snd (GetTodo P s i) = Inr t \<Longrightarrow>
   table_ready s \<and> (\<exists>r. find (\<lambda>r. r_id r = i) (rows s) = Some r \<and> read_row P r = Inr t)"
  by (auto simp: GetTodo_eq split: if_splits option.splits)

text \<open>
  The row an update leaves in place of \<open>r\<close>: \<open>r\<close> itself when the request carries no field
  (nothing is written), and otherwise \<open>r\<close> with the carried fields and the time of writing.
\<close>

lemma UpdateTodo_Inr:
  assumes "snd (UpdateTodo P s i req) = Inr t"
  shows "\<exists>r c u. find (\<lambda>r. r_id r = i) (rows s) = Some r \<and> r_created_at r = Some c \<and>
           (if present_fields req = [] then r_updated_at r = Some u else u = clock s) \<and>
           t = row_Todo P (apply_update (clock s) req r) c u \<and>
           table_ready s \<and>
           rows (fst (UpdateTodo P s i req)) =
             (if present_fields req = [] then rows s
              else map (\<lambda>r. if r_id r = i then apply_update (clock s) req r else r) (rows s))"
proof (cases "present_fields req = []")
  case True
  from True assms have g: "snd (GetTodo P s i) = Inr t" by (simp add: UpdateTodo_eq)
  from GetTodo_Inr [OF g] obtain r where ready: "table_ready s"
    and r: "find (\<lambda>r. r_id r = i) (rows s) = Some r"
    and rd: "read_row P r = Inr t" by blast
  from read_row_Inr [OF rd] obtain c u where
    cu: "r_created_at r = Some c" "r_updated_at r = Some u" and t: "t = row_Todo P r c u" by blast
  have "row_Todo P (apply_update (clock s) req r) c u = row_Todo P r c u"
    by (simp add: row_Todo_def apply_update_nothing [OF True])
  with True r cu t ready show ?thesis by (simp add: UpdateTodo_eq GetTodo_store)
next
  case False
  note w = UpdateTodo_write [OF False, of P s i]
  from assms w obtain r where ready: "table_ready s"
    and r: "find (\<lambda>r. r_id r = i) (rows s) = Some r"
    and rd: "read_row P (apply_update (clock s) req r) = Inr t"
    and st: "rows (fst (UpdateTodo P s i req)) =
               map (\<lambda>r. if r_id r = i then apply_update (clock s) req r else r) (rows s)"
    by (auto simp: traced_def split: if_splits option.splits)
  from read_row_Inr [OF rd] obtain c where "r_created_at r = Some c"
    and "t = row_Todo P (apply_update (clock s) req r) c (clock s)" by auto
  with False r st ready show ?thesis by simp
qed

text \<open>When an update succeeds: the table is there, the row can be read, the checks hold.\<close>

lemma UpdateTodo_success:
  assumes "table_ready s" and "find (\<lambda>r. r_id r = i) (rows s) = Some r"
    and "r_created_at r = Some c" and "r_updated_at r = Some u"
    and "list_all (\<lambda>r. check_row (apply_update (clock s) req r))
           (filter (\<lambda>r. r_id r = i) (rows s))"
  shows "snd (UpdateTodo P s i req) =
           Inr (row_Todo P (apply_update (clock s) req r) c
                  (if present_fields req = [] then u else clock s))"
proof (cases "present_fields req = []")
  case True
  have "row_Todo P (apply_update (clock s) req r) c u = row_Todo P r c u"
    by (simp add: row_Todo_def apply_update_nothing [OF True])
  with True assms show ?thesis
    by (simp add: UpdateTodo_eq GetTodo_eq read_row_text)
next
  case False
  from assms show ?thesis
    unfolding UpdateTodo_write [OF False]
    by (simp add: False read_row_def)
qed

text \<open>
  C1. When \<open>UpdateTodo\<close> succeeds, the store held a row \<open>r\<close> with that identifier and holds
  a row \<open>r'\<close> in its place; each of title, description, status, category and
  progress_percent of \<open>r'\<close> is the request's value where the field is present (the empty
  string where it is present and empty) and the value of \<open>r\<close> where it is absent; the
  identifier and the creation time are those of \<open>r\<close>; the returned record shows \<open>r'\<close>; and
  the rows with other identifiers are as before. It succeeds whenever the table is
  migrated, the row can be read and the written row satisfies the CHECK constraints.
\<close>

theorem update_writes_only_present_fields:
  "(snd (UpdateTodo P s i req) = Inr t \<longrightarrow>
      (\<exists>r r' c. find (\<lambda>r. r_id r = i) (rows s) = Some r \<and>
         find (\<lambda>r. r_id r = i) (rows (fst (UpdateTodo P s i req))) = Some r' \<and>
         r_id r' = r_id r \<and> r_created_at r = Some c \<and> r_created_at r' = Some c \<and>
         r_title r' = (case ur_Title req of None \<Rightarrow> r_title r | Some v \<Rightarrow> v) \<and>
         r_description r' = (case ur_Description req of None \<Rightarrow> r_description r | Some v \<Rightarrow> v) \<and>
         r_status r' = (case ur_Status req of None \<Rightarrow> r_status r | Some v \<Rightarrow> v) \<and>
         r_category r' = (case ur_Category req of None \<Rightarrow> r_category r | Some v \<Rightarrow> v) \<and>
         r_progress_percent r' =
           (case ur_ProgressPercent req of None \<Rightarrow> r_progress_percent r | Some v \<Rightarrow> v) \<and>
         ID t = r_id r' \<and> Title t = r_title r' \<and> Description t = r_description r' \<and>
         Status t = r_status r' \<and> Category t = r_category r' \<and>
         ProgressPercent t = r_progress_percent r' \<and> CreatedAt t = parse_or_zero P c) \<and>
      filter (\<lambda>r. r_id r \<noteq> i) (rows (fst (UpdateTodo P s i req))) =
        filter (\<lambda>r. r_id r \<noteq> i) (rows s)) \<and>
   (table_ready s \<and> find (\<lambda>r. r_id r = i) (rows s) = Some r0 \<and>
    r_created_at r0 = Some c0 \<and> r_updated_at r0 = Some u0 \<and>
    list_all (\<lambda>r. check_row (apply_update (clock s) req r)) (filter (\<lambda>r. r_id r = i) (rows s)) \<longrightarrow>
      (\<exists>t. snd (UpdateTodo P s i req) = Inr t))"
proof -
  have effect: "(\<exists>r r' c. find (\<lambda>r. r_id r = i) (rows s) = Some r \<and>
         find (\<lambda>r. r_id r = i) (rows (fst (UpdateTodo P s i req))) = Some r' \<and>
         r_id r' = r_id r \<and> r_created_at r = Some c \<and> r_created_at r' = Some c \<and>
         r_title r' = (case ur_Title req of None \<Rightarrow> r_title r | Some v \<Rightarrow> v) \<and>
         r_description r' = (case ur_Description req of None \<Rightarrow> r_description r | Some v \<Rightarrow> v) \<and>
         r_status r' = (case ur_Status req of None \<Rightarrow> r_status r | Some v \<Rightarrow> v) \<and>
         r_category r' = (case ur_Category req of None \<Rightarrow> r_category r | Some v \<Rightarrow> v) \<and>
         r_progress_percent r' =
           (case ur_ProgressPercent req of None \<Rightarrow> r_progress_percent r | Some v \<Rightarrow> v) \<and>
         ID t = r_id r' \<and> Title t = r_title r' \<and> Description t = r_description r' \<and>
         Status t = r_status r' \<and> Category t = r_category r' \<and>
         ProgressPercent t = r_progress_percent r' \<and> CreatedAt t = parse_or_zero P c) \<and>
      filter (\<lambda>r. r_id r \<noteq> i) (rows (fst (UpdateTodo P s i req))) =
        filter (\<lambda>r. r_id r \<noteq> i) (rows s)"
    if ok: "snd (UpdateTodo P s i req) = Inr t"
  proof -
    from UpdateTodo_Inr [OF ok] obtain r c u where
      r: "find (\<lambda>r. r_id r = i) (rows s) = Some r" and c: "r_created_at r = Some c"
      and t: "t = row_Todo P (apply_update (clock s) req r) c u"
      and st: "rows (fst (UpdateTodo P s i req)) =
             (if present_fields req = [] then rows s
              else map (\<lambda>r. if r_id r = i then apply_update (clock s) req r else r) (rows s))"
      by blast
    define r' where "r' = (if present_fields req = [] then r else apply_update (clock s) req r)"
    have after: "find (\<lambda>r. r_id r = i) (rows (fst (UpdateTodo P s i req))) = Some r'"
      by (simp add: st r r'_def find_map_hit)
    have fields: "r_id r' = r_id r" "r_created_at r' = Some c"
      "r_title r' = (case ur_Title req of None \<Rightarrow> r_title r | Some v \<Rightarrow> v)"
      "r_description r' = (case ur_Description req of None \<Rightarrow> r_description r | Some v \<Rightarrow> v)"
      "r_status r' = (case ur_Status req of None \<Rightarrow> r_status r | Some v \<Rightarrow> v)"
      "r_category r' = (case ur_Category req of None \<Rightarrow> r_category r | Some v \<Rightarrow> v)"
      "r_progress_percent r' =
         (case ur_ProgressPercent req of None \<Rightarrow> r_progress_percent r | Some v \<Rightarrow> v)"
      by (simp_all add: r'_def c present_fields_empty apply_update_def)
    have shown: "ID t = r_id r'" "Title t = r_title r'" "Description t = r_description r'"
      "Status t = r_status r'" "Category t = r_category r'"
      "ProgressPercent t = r_progress_percent r'" "CreatedAt t = parse_or_zero P c"
      by (simp_all add: t r'_def row_Todo_def apply_update_nothing)
    have others: "filter (\<lambda>r. r_id r \<noteq> i) (rows (fst (UpdateTodo P s i req))) =
                  filter (\<lambda>r. r_id r \<noteq> i) (rows s)"
      by (simp add: st filter_others)
    from r c after fields shown others show ?thesis by blast
  qed
  have succeeds: "\<exists>t. snd (UpdateTodo P s i req) = Inr t"
    if "table_ready s" "find (\<lambda>r. r_id r = i) (rows s) = Some r0"
      "r_created_at r0 = Some c0" "r_updated_at r0 = Some u0"
      "list_all (\<lambda>r. check_row (apply_update (clock s) req r)) (filter (\<lambda>r. r_id r = i) (rows s))"
    using UpdateTodo_success [OF that, of P] by blast
  from effect succeeds show ?thesis by blast
qed

lemma example_update_result:
  "snd (UpdateTodo example_parse example_store 1 example_update) =
     Inr \<lparr>ID = 1, Title = ''Plan sprint'', Description = [], Status = ''pending'',
          Category = ''work'', ProgressPercent = 50,
          CreatedAt = Time 63906505445 0, UpdatedAt = Time 63906505446 0\<rparr>"
proof -
  have r: "r_created_at (example_rows ! 0) = Some ''2026-02-12T15:04:05Z''"
    "r_updated_at (example_rows ! 0) = Some ''2026-02-12T15:04:05Z''"
    by (simp_all add: example_rows_def)
  show ?thesis
    unfolding UpdateTodo_success [OF example_ready example_find_1 r example_update_checks]
    by (simp add: example_update_present)
       (simp add: example_store_def example_rows_def example_update_def apply_update_def
          row_Todo_def parse_or_zero_def example_parse_def)
qed

lemma example_update_rows:
  "rows (fst (UpdateTodo example_parse example_store 1 example_update)) =
     (example_rows ! 0)\<lparr>r_description := [], r_progress_percent := 50,
        r_updated_at := Some ''2026-02-12T15:04:06Z''\<rparr> # tl example_rows"
  unfolding UpdateTodo_write [OF example_update_present]
  by (simp add: example_ready)
     (simp add: example_store_def example_rows_def example_update_def apply_update_def
        check_row_def traced_def)

theorem update_writes_only_present_fields_witness:
  "snd (UpdateTodo example_parse example_store 1 example_update) =
     Inr \<lparr>ID = 1, Title = ''Plan sprint'', Description = [], Status = ''pending'',
          Category = ''work'', ProgressPercent = 50,
          CreatedAt = Time 63906505445 0, UpdatedAt = Time 63906505446 0\<rparr> \<and>
   find (\<lambda>r. r_id r = 1) (rows example_store) = Some (example_rows ! 0) \<and>
   r_title (example_rows ! 0) = ''Plan sprint'' \<and>
   r_description (example_rows ! 0) = ''backlog'' \<and>
   r_status (example_rows ! 0) = ''pending'' \<and>
   r_category (example_rows ! 0) = ''work'' \<and>
   r_progress_percent (example_rows ! 0) = 0 \<and>
   ur_Title example_update = None \<and> ur_Description example_update = Some [] \<and>
   ur_ProgressPercent example_update = Some 50 \<and>
   table_ready example_store \<and>
   list_all (\<lambda>r. check_row (apply_update (clock example_store) example_update r))
     (filter (\<lambda>r. r_id r = 1) (rows example_store)) \<and>
   filter (\<lambda>r. r_id r \<noteq> 1) (rows (fst (UpdateTodo example_parse example_store 1 example_update))) =
     filter (\<lambda>r. r_id r \<noteq> 1) (rows example_store)"
  using update_writes_only_present_fields
      [of example_parse example_store 1 example_update
          "\<lparr>ID = 1, Title = ''Plan sprint'', Description = [], Status = ''pending'',
            Category = ''work'', ProgressPercent = 50,
            CreatedAt = Time 63906505445 0, UpdatedAt = Time 63906505446 0\<rparr>"]
    example_update_result example_find_1 example_ready example_update_checks
  by (simp add: example_rows_def example_update_def)

section \<open>Identifiers that are not in the store\<close>




lemma UpdateTodo_absent:
  assumes "table_ready s" and "i \<notin> set (map r_id (rows s))"
  shows "UpdateTodo P s i req =
           (if present_fields req = [] then (traced s sql_get [SInt i], Inl ErrNotFound)
            else (traced s (fst (UpdateTodo_issued i req)) (snd (UpdateTodo_issued i req)),
                  Inl ErrNotFound))"
proof (cases "present_fields req = []")
  case True
  with assms show ?thesis by (simp add: UpdateTodo_eq GetTodo_eq absent_find)
next
  case False
  from assms show ?thesis
    unfolding UpdateTodo_write [OF False]
    by (simp add: absent_find absent_filter False)
qed





section \<open>An update without fields\<close>

text \<open>
  C10. \<open>UpdateTodo\<close> without a field, for an identifier that is not in a migrated store,
  fails with \<open>ErrNotFound\<close>; the only statement it issues is the SELECT of the re-read,
  for which the store has no row; no write is issued and the stored state is unchanged.
\<close>

theorem empty_update_not_found_by_reread:
  assumes "table_ready s" and "i \<notin> set (map r_id (rows s))"
  shows "UpdateTodo P s i no_fields = (traced s sql_get [SInt i], Inl ErrNotFound) \<and>
         snd (db_QueryRow s sql_get [SInt i]) = Inl ErrNoRows \<and>
         trace (fst (UpdateTodo P s i no_fields)) = trace s @ [(sql_get, [SInt i])] \<and>
         stored (fst (UpdateTodo P s i no_fields)) = stored s"
  using assms by (simp add: UpdateTodo_absent db_QueryRow_get absent_find)

theorem empty_update_not_found_by_reread_witness:
  "table_ready example_store \<and> 999999 \<notin> set (map r_id (rows example_store)) \<and>
   UpdateTodo example_parse example_store 999999 no_fields =
     (traced example_store sql_get [SInt 999999], Inl ErrNotFound) \<and>
   snd (db_QueryRow example_store sql_get [SInt 999999]) = Inl ErrNoRows \<and>
   trace (fst (UpdateTodo example_parse example_store 999999 no_fields)) =
     trace example_store @ [(sql_get, [SInt 999999])] \<and>
   stored (fst (UpdateTodo example_parse example_store 999999 no_fields)) = stored example_store"
  using empty_update_not_found_by_reread [OF example_ready example_absent, of example_parse]
    example_ready example_absent
  by simp





end
